theory Spec2Isabelle
  imports Complex_Main
begin

section \<open>Data model\<close>

text \<open>
  The tabular actor-critic trainer of \<^verbatim>\<open>src/rl/acm.py\<close>, \<^verbatim>\<open>src/rl/actor.py\<close> and
  \<^verbatim>\<open>src/rl/core.py\<close>.

  Numbers: the tables hold Python floats (and the int literals 0 and 1). They are modelled
  as \<^typ>\<open>real\<close>: arithmetic is exact, there is no rounding, no overflow to infinity and
  no NaN. Every arithmetic statement below is a statement about this exact arithmetic.

  Dictionaries are maps; a subscript on a missing key raises \<open>KeyError\<close>.
  Exceptions are values: a method returns \<open>Inl e\<close> where Python raises \<open>e\<close>.
  A method that mutates \<open>self\<close> returns the new object; a method that only reads it
  and returns a value returns the value together with the object it was called on.
\<close>

datatype error = KeyError | ValueError | TypeError | NameError | AttributeError

subsection \<open>The random source\<close>

text \<open>
  \<^verbatim>\<open>np.random\<close> is the process-wide generator of numpy. Its state is a stream of raw
  naturals and the position of the next one. \<open>random_sample\<close> is numpy's 53-bit uniform
  double in the half-open unit interval, which is what \<^verbatim>\<open>np.random.uniform()\<close> returns for
  the default bounds; \<open>random_index n\<close> is an index below \<open>n\<close>.
\<close>

record rng =
  rng_raw :: "nat \<Rightarrow> nat"
  rng_pos :: nat

definition rng_next :: "rng \<Rightarrow> rng" where
  "rng_next g = g\<lparr>rng_pos := Suc (rng_pos g)\<rparr>"

definition random_sample :: "rng \<Rightarrow> real \<times> rng" where
  "random_sample g = (real (rng_raw g (rng_pos g) mod 2 ^ 53) / 2 ^ 53, rng_next g)"

definition random_index :: "nat \<Rightarrow> rng \<Rightarrow> nat \<times> rng" where
  "random_index n g = (rng_raw g (rng_pos g) mod n, rng_next g)"

text \<open>
  \<^verbatim>\<open>np.random.choice(np.array([0, 1]), p=[1 - epsilon, epsilon])\<close>: numpy refuses a
  negative probability with \<open>ValueError\<close>; otherwise it draws one uniform sample \<open>u\<close> and
  returns the index of the first cumulative probability above \<open>u\<close>, that is 0 when
  \<open>u < 1 - epsilon\<close> and 1 otherwise.
\<close>

definition choice_explore :: "real \<Rightarrow> rng \<Rightarrow> error + (nat \<times> rng)" where
  "choice_explore epsilon g =
     (if 1 - epsilon < 0 \<or> epsilon < 0 then Inl ValueError
      else let (u, g') = random_sample g in Inr (if u < 1 - epsilon then 0 else 1, g'))"

text \<open>
  \<^verbatim>\<open>np.random.choice(np.array(actions))\<close>: \<open>ValueError\<close> on an empty array, otherwise the
  element at a random index.
\<close>

definition choice_uniform :: "'a list \<Rightarrow> rng \<Rightarrow> error + ('a \<times> rng)" where
  "choice_uniform xs g =
     (if xs = [] then Inl ValueError
      else let (i, g') = random_index (length xs) g in Inr (xs ! i, g'))"

subsection \<open>The actor of \<^verbatim>\<open>acm.py\<close>\<close>

text \<open>
  An action proposed by the actor is either one of the domain's actions or Python's
  \<open>None\<close>; the orchestrator uses whatever was proposed as a dictionary key. A key of
  the actor's tables is therefore a state and an optional action, and the actions the
  domain lists for a state are the keys \<open>(state, Some action)\<close>.
\<close>

record ('s, 'a) TableBasedActor =
  policy :: "('s \<times> 'a option) \<rightharpoonup> real"
  actor_eligibilities :: "('s \<times> 'a option) \<rightharpoonup> real"
  state_actions :: "'s \<rightharpoonup> 'a list"

definition TableBasedActor_init :: "('s, 'a) TableBasedActor" where
  "TableBasedActor_init =
     \<lparr>policy = Map.empty, actor_eligibilities = Map.empty, state_actions = Map.empty\<rparr>"

fun add_state_loop ::
  "'s \<Rightarrow> 'a list \<Rightarrow> ('s, 'a) TableBasedActor \<Rightarrow> ('s, 'a) TableBasedActor" where
  "add_state_loop state [] a = a"
| "add_state_loop state (action # actions) a =
     (let a1 = (if policy a (state, Some action) = None
                then a\<lparr>policy := (policy a)((state, Some action) \<mapsto> 0)\<rparr> else a);
          a2 = (if actor_eligibilities a1 (state, Some action) = None
                then a1\<lparr>actor_eligibilities :=
                          (actor_eligibilities a1)((state, Some action) \<mapsto> 0)\<rparr>
                else a1)
      in add_state_loop state actions a2)"

definition actor_add_state ::
  "'s \<Rightarrow> 'a list \<Rightarrow> ('s, 'a) TableBasedActor \<Rightarrow> ('s, 'a) TableBasedActor" where
  "actor_add_state state actions a =
     add_state_loop state actions (a\<lparr>state_actions := (state_actions a)(state \<mapsto> actions)\<rparr>)"

definition actor_reset_eligibilities ::
  "('s, 'a) TableBasedActor \<Rightarrow> ('s, 'a) TableBasedActor" where
  "actor_reset_eligibilities a =
     a\<lparr>actor_eligibilities := (\<lambda>k. map_option (\<lambda>_. 0) (actor_eligibilities a k))\<rparr>"

text \<open>
  The greedy scan of \<open>propose_action\<close>. The pair carried through the loop is
  \<open>(best_action, max_value)\<close>; \<open>max_value = None\<close> stands for \<^verbatim>\<open>-math.inf\<close>, below
  every real. \<open>n\<close> is \<^verbatim>\<open>len(actions)\<close>.
\<close>

fun greedy_scan ::
  "(('s \<times> 'a option) \<rightharpoonup> real) \<Rightarrow> 's \<Rightarrow> nat \<Rightarrow> 'a list \<Rightarrow> 'a option \<times> real option
     \<Rightarrow> error + 'a option" where
  "greedy_scan pol state n [] (best_action, max_value) = Inr best_action"
| "greedy_scan pol state n (action # rest) (best_action, max_value) =
     (case pol (state, Some action) of
        None \<Rightarrow> Inl KeyError
      | Some p \<Rightarrow>
          (let state_value = p / real n in
           if (case max_value of None \<Rightarrow> True | Some m \<Rightarrow> state_value > m)
           then greedy_scan pol state n rest (Some action, Some state_value)
           else greedy_scan pol state n rest (best_action, max_value)))"

definition propose_action ::
  "('s, 'a) TableBasedActor \<Rightarrow> 's \<Rightarrow> real \<Rightarrow> rng \<Rightarrow> error + ('a option \<times> rng)" where
  "propose_action a state epsilon g =
     (case state_actions a state of
        None \<Rightarrow> Inl KeyError
      | Some actions \<Rightarrow>
          (case choice_explore epsilon g of
             Inl e \<Rightarrow> Inl e
           | Inr (c, g1) \<Rightarrow>
               if c = 1 then
                 (case choice_uniform actions g1 of
                    Inl e \<Rightarrow> Inl e
                  | Inr (x, g2) \<Rightarrow> Inr (Some x, g2))
               else
                 (case greedy_scan (policy a) state (length actions) actions (None, None) of
                    Inl e \<Rightarrow> Inl e
                  | Inr best_action \<Rightarrow> Inr (best_action, g1))))"

text \<open>
  \<^verbatim>\<open>self.policy[k] += learning_rate * td_error * self.eligibilities[k]\<close>: the target is
  read first, then the right-hand side, then the entry is stored.
\<close>

definition update_policy ::
  "('s, 'a) TableBasedActor \<Rightarrow> 's \<Rightarrow> 'a option \<Rightarrow> real \<Rightarrow> real
     \<Rightarrow> error + ('s, 'a) TableBasedActor" where
  "update_policy a state action learning_rate td_error =
     (case policy a (state, action) of
        None \<Rightarrow> Inl KeyError
      | Some p \<Rightarrow>
          (case actor_eligibilities a (state, action) of
             None \<Rightarrow> Inl KeyError
           | Some e \<Rightarrow>
               Inr (a\<lparr>policy := (policy a)((state, action) \<mapsto> p + learning_rate * td_error * e)\<rparr>)))"

definition actor_update_eligibilities ::
  "('s, 'a) TableBasedActor \<Rightarrow> 's \<Rightarrow> 'a option \<Rightarrow> real \<Rightarrow> real
     \<Rightarrow> error + ('s, 'a) TableBasedActor" where
  "actor_update_eligibilities a state action discount_rate decay_factor =
     (case actor_eligibilities a (state, action) of
        None \<Rightarrow> Inl KeyError
      | Some e \<Rightarrow>
          Inr (a\<lparr>actor_eligibilities :=
                   (actor_eligibilities a)((state, action) \<mapsto> e * (discount_rate * decay_factor))\<rparr>))"

subsection \<open>The critic of \<^verbatim>\<open>acm.py\<close>\<close>

record 's TableBasedCritic =
  state_values :: "'s \<rightharpoonup> real"
  critic_eligibilities :: "'s \<rightharpoonup> real"

definition TableBasedCritic_init :: "'s TableBasedCritic" where
  "TableBasedCritic_init = \<lparr>state_values = Map.empty, critic_eligibilities = Map.empty\<rparr>"

text \<open>\<open>add_state\<close> draws from the random source only when the state has no value yet.\<close>

definition critic_add_state ::
  "'s \<Rightarrow> 's TableBasedCritic \<Rightarrow> rng \<Rightarrow> 's TableBasedCritic \<times> rng" where
  "critic_add_state state c g =
     (let (c1, g1) =
            (if state_values c state = None
             then (let (u, g') = random_sample g
                   in (c\<lparr>state_values := (state_values c)(state \<mapsto> u)\<rparr>, g'))
             else (c, g));
          c2 = (if critic_eligibilities c1 state = None
                then c1\<lparr>critic_eligibilities := (critic_eligibilities c1)(state \<mapsto> 0)\<rparr>
                else c1)
      in (c2, g1))"

definition critic_reset_eligibilities :: "'s TableBasedCritic \<Rightarrow> 's TableBasedCritic" where
  "critic_reset_eligibilities c =
     c\<lparr>critic_eligibilities := (\<lambda>k. map_option (\<lambda>_. 0) (critic_eligibilities c k))\<rparr>"

text \<open>
  \<^verbatim>\<open>reinforcement + (discount_rate * self.state_values[successor_state])
        - self.state_values[current_state]\<close>: the successor is looked up first.
\<close>

definition compute_td_error ::
  "'s TableBasedCritic \<Rightarrow> 's \<Rightarrow> 's \<Rightarrow> real \<Rightarrow> real \<Rightarrow> error + (real \<times> 's TableBasedCritic)" where
  "compute_td_error c current_state successor_state reinforcement discount_rate =
     (case state_values c successor_state of
        None \<Rightarrow> Inl KeyError
      | Some v2 \<Rightarrow>
          (case state_values c current_state of
             None \<Rightarrow> Inl KeyError
           | Some v1 \<Rightarrow> Inr (reinforcement + (discount_rate * v2) - v1, c)))"

definition update_value_function ::
  "'s TableBasedCritic \<Rightarrow> 's \<Rightarrow> real \<Rightarrow> real \<Rightarrow> error + 's TableBasedCritic" where
  "update_value_function c state learning_rate td_error =
     (case state_values c state of
        None \<Rightarrow> Inl KeyError
      | Some v \<Rightarrow>
          (case critic_eligibilities c state of
             None \<Rightarrow> Inl KeyError
           | Some e \<Rightarrow>
               Inr (c\<lparr>state_values := (state_values c)(state \<mapsto> v + learning_rate * td_error * e)\<rparr>)))"

definition critic_update_eligibilities ::
  "'s TableBasedCritic \<Rightarrow> 's \<Rightarrow> real \<Rightarrow> real \<Rightarrow> error + 's TableBasedCritic" where
  "critic_update_eligibilities c state discount_rate decay_factor =
     (case critic_eligibilities c state of
        None \<Rightarrow> Inl KeyError
      | Some e \<Rightarrow>
          Inr (c\<lparr>critic_eligibilities :=
                   (critic_eligibilities c)(state \<mapsto> e * (discount_rate * decay_factor))\<rparr>))"

text \<open>
  \<open>NNBasedCritic\<close> is a class with an empty body: it has no attribute but those of
  \<open>object\<close>, so every method call and every access to \<open>eligibilities\<close> on it raises
  \<open>AttributeError\<close>.
\<close>

datatype 's Critic = Table "'s TableBasedCritic" | NNBased

definition table_of :: "'s Critic \<Rightarrow> error + 's TableBasedCritic" where
  "table_of c = (case c of Table t \<Rightarrow> Inr t | NNBased \<Rightarrow> Inl AttributeError)"

subsection \<open>The orchestrator of \<^verbatim>\<open>acm.py\<close>\<close>

definition bind_err :: "error + 'x \<Rightarrow> ('x \<Rightarrow> error + 'y) \<Rightarrow> error + 'y" where
  "bind_err m f = (case m of Inl e \<Rightarrow> Inl e | Inr x \<Rightarrow> f x)"

text \<open>
  The domain is an object of a class that is not part of the sources (\<open>Domain\<close> in
  \<^verbatim>\<open>environment.py\<close> is abstract and declares other methods than \<open>fit\<close> calls). It is a
  parameter: a hidden state of type \<open>'d\<close> and the four methods \<open>fit\<close> calls on it. The
  two methods that produce states may raise.
\<close>

record ('d, 's, 'a) Domain =
  produce_initial_state :: "'d \<Rightarrow> error + (('s \<times> 'a list) \<times> 'd)"
  generate_child_state :: "'a option \<Rightarrow> 'd \<Rightarrow> error + (('s \<times> 'a list \<times> real) \<times> 'd)"
  is_current_state_terminal :: "'d \<Rightarrow> bool"
  domain_visualise :: "'d \<Rightarrow> 'd"

record ACM =
  max_episodes :: int
  steps :: int
  critic_type :: string
  critic_nn_dims :: "nat list"
  actor_lr :: real
  critic_lr :: real
  decay_factor :: real
  discount_rate :: real
  epsilon :: real
  epsilon_decay :: real
  visualise :: bool
  verbose :: bool

text \<open>The local variables of \<open>fit\<close> inside an episode, with the domain and the random source.\<close>

record ('d, 's, 'a) episode_state =
  actor :: "('s, 'a) TableBasedActor"
  critic :: "'s Critic"
  domain_state :: 'd
  random_state :: rng
  current_state :: 's
  current_action :: "'a option"
  episode :: "('s \<times> 'a option) list"
  step :: int

text \<open>What \<open>fit\<close> carries from one episode to the next: \<open>self\<close>, both tables, the world.\<close>

record ('d, 's, 'a) fit_state =
  fit_self :: ACM
  fit_actor :: "('s, 'a) TableBasedActor"
  fit_critic :: "'s Critic"
  fit_domain :: 'd
  fit_rng :: rng

text \<open>Lines 85 to 91: the loop over the episode, oldest entry first.\<close>

fun sweep ::
  "ACM \<Rightarrow> real \<Rightarrow> ('s \<times> 'a option) list \<Rightarrow> ('s, 'a) TableBasedActor \<times> 's Critic
     \<Rightarrow> error + (('s, 'a) TableBasedActor \<times> 's Critic)" where
  "sweep acm td [] (ac, cr) = Inr (ac, cr)"
| "sweep acm td ((s, a) # rest) (ac, cr) =
     bind_err (table_of cr) (\<lambda>t.
     bind_err (update_value_function t s (critic_lr acm) td) (\<lambda>t1.
     bind_err (critic_update_eligibilities t1 s (discount_rate acm) (decay_factor acm)) (\<lambda>t2.
     bind_err (update_policy ac s a (actor_lr acm) td) (\<lambda>a1.
     bind_err (actor_update_eligibilities a1 s a (discount_rate acm) (decay_factor acm)) (\<lambda>a2.
     sweep acm td rest (a2, Table t2))))))"

text \<open>
  Lines 58 to 82: one pass of the body of the while loop up to the sweep. The result is
  the state with the episode extended, the successor registered and both traces of the
  current pair marked, then the successor state, the successor action and the TD error.
\<close>

definition fit_step_prepare ::
  "ACM \<Rightarrow> ('d, 's, 'a) Domain \<Rightarrow> ('d, 's, 'a) episode_state
     \<Rightarrow> error + (('d, 's, 'a) episode_state \<times> 's \<times> 'a option \<times> real)" where
  "fit_step_prepare acm domain st =
     (let episode1 = episode st @ [(current_state st, current_action st)] in
      bind_err (generate_child_state domain (current_action st) (domain_state st))
        (\<lambda>((successor_state, actions, reinforcement), d1).
      let actor1 = actor_add_state successor_state actions (actor st) in
      bind_err (table_of (critic st)) (\<lambda>t.
      let (t1, g1) = critic_add_state successor_state t (random_state st) in
      bind_err (propose_action actor1 successor_state (epsilon acm) g1)
        (\<lambda>(successor_action, g2).
      let actor2 = actor1\<lparr>actor_eligibilities :=
                     (actor_eligibilities actor1)((current_state st, current_action st) \<mapsto> 1)\<rparr> in
      bind_err (compute_td_error t1 (current_state st) successor_state reinforcement
                  (discount_rate acm))
        (\<lambda>(td_error, t2).
      let t3 = t2\<lparr>critic_eligibilities := (critic_eligibilities t2)(current_state st \<mapsto> 1)\<rparr> in
      Inr (st\<lparr>actor := actor2, critic := Table t3, domain_state := d1, random_state := g2,
               episode := episode1, step := step st + 1\<rparr>,
           successor_state, successor_action, td_error))))))"

text \<open>Lines 58 to 94: the whole body of the while loop.\<close>

definition fit_step ::
  "ACM \<Rightarrow> ('d, 's, 'a) Domain \<Rightarrow> ('d, 's, 'a) episode_state
     \<Rightarrow> error + ('d, 's, 'a) episode_state" where
  "fit_step acm domain st =
     bind_err (fit_step_prepare acm domain st) (\<lambda>(st1, successor_state, successor_action, td_error).
     bind_err (sweep acm td_error (episode st1) (actor st1, critic st1)) (\<lambda>(actor3, critic3).
     Inr (st1\<lparr>actor := actor3, critic := critic3,
              current_state := successor_state, current_action := successor_action\<rparr>)))"

lemma fit_step_prepare_step:
  "fit_step_prepare acm domain st = Inr (st1, x) \<Longrightarrow> step st1 = step st + 1"
  by (auto simp: fit_step_prepare_def bind_err_def Let_def
           split: sum.splits prod.splits)

lemma fit_step_step: "fit_step acm domain st = Inr st' \<Longrightarrow> step st' = step st + 1"
  by (auto simp: fit_step_def bind_err_def split: sum.splits prod.splits
           dest: fit_step_prepare_step)

text \<open>Line 57: the while loop. It ends because \<open>step\<close> grows by one towards \<open>steps\<close>.\<close>

function step_loop ::
  "ACM \<Rightarrow> ('d, 's, 'a) Domain \<Rightarrow> ('d, 's, 'a) episode_state
     \<Rightarrow> error + ('d, 's, 'a) episode_state" where
  "step_loop acm domain st =
     (if step st < steps acm \<and> \<not> is_current_state_terminal domain (domain_state st)
      then (case fit_step acm domain st of
              Inl e \<Rightarrow> Inl e
            | Inr st' \<Rightarrow> step_loop acm domain st')
      else Inr st)"
  by pat_completeness auto
termination
  by (relation "measure (\<lambda>(acm, domain, st). nat (steps acm - step st))")
     (auto dest: fit_step_step)

declare step_loop.simps [simp del]

text \<open>
  Lines 44 to 56: the start of an episode, up to the while loop. \<open>self.epsilon\<close> is read
  from \<open>fit_self\<close>.
\<close>

definition episode_init ::
  "('d, 's, 'a) Domain \<Rightarrow> ('d, 's, 'a) fit_state \<Rightarrow> error + ('d, 's, 'a) episode_state" where
  "episode_init domain fs =
     (let actor1 = actor_reset_eligibilities (fit_actor fs) in
      bind_err (table_of (fit_critic fs)) (\<lambda>t.
      let t1 = critic_reset_eligibilities t in
      bind_err (produce_initial_state domain (fit_domain fs)) (\<lambda>((s0, actions), d1).
      let actor2 = actor_add_state s0 actions actor1;
          (t2, g1) = critic_add_state s0 t1 (fit_rng fs) in
      bind_err (propose_action actor2 s0 (epsilon (fit_self fs)) g1) (\<lambda>(a0, g2).
      Inr \<lparr>actor = actor2, critic = Table t2, domain_state = d1, random_state = g2,
           current_state = s0, current_action = a0, episode = [], step = 0\<rparr>))))"

text \<open>
  Lines 40 to 98: one pass of the loop over the episodes. The progress bar and
  \<open>steps_per_episode\<close>, which only feed its description, are left out.
\<close>

definition run_episode ::
  "('d, 's, 'a) Domain \<Rightarrow> int \<Rightarrow> ('d, 's, 'a) fit_state \<Rightarrow> error + ('d, 's, 'a) fit_state" where
  "run_episode domain episode_count fs =
     (let acm = fit_self fs in
      bind_err (episode_init domain fs) (\<lambda>st0.
      bind_err (step_loop acm domain st0) (\<lambda>st.
      let acm1 = acm\<lparr>epsilon := epsilon acm * epsilon_decay acm\<rparr>;
          d2 = (if episode_count = max_episodes acm1 - 1 \<or> episode_count = 0
                then domain_visualise domain (domain_state st) else domain_state st)
      in Inr \<lparr>fit_self = acm1, fit_actor = actor st, fit_critic = critic st,
               fit_domain = d2, fit_rng = random_state st\<rparr>)))"

fun episodes_loop ::
  "('d, 's, 'a) Domain \<Rightarrow> int list \<Rightarrow> ('d, 's, 'a) fit_state \<Rightarrow> error + ('d, 's, 'a) fit_state" where
  "episodes_loop domain [] fs = Inr fs"
| "episodes_loop domain (episode_count # rest) fs =
     (case run_episode domain episode_count fs of
        Inl e \<Rightarrow> Inl e
      | Inr fs' \<Rightarrow> episodes_loop domain rest fs')"

text \<open>
  \<open>fit\<close>: \<open>range(self.max_episodes)\<close> is empty for a count that is not positive. The
  method returns nothing; the model returns what it leaves behind.
\<close>

definition fit_init :: "ACM \<Rightarrow> 'd \<Rightarrow> rng \<Rightarrow> ('d, 's, 'a) fit_state" where
  "fit_init acm d g =
     \<lparr>fit_self = acm,
      fit_actor = TableBasedActor_init,
      fit_critic = (if critic_type acm = ''table'' then Table TableBasedCritic_init else NNBased),
      fit_domain = d,
      fit_rng = g\<rparr>"

definition fit ::
  "ACM \<Rightarrow> ('d, 's, 'a) Domain \<Rightarrow> 'd \<Rightarrow> rng \<Rightarrow> error + ('d, 's, 'a) fit_state" where
  "fit acm domain d g =
     episodes_loop domain (map int [0..<nat (max_episodes acm)]) (fit_init acm d g)"

subsection \<open>The actor of \<^verbatim>\<open>actor.py\<close>\<close>

text \<open>
  The second actor class keeps its learning rate and its exploration rate in the object
  and keys its tables by \<^verbatim>\<open>hash(tuple(state))\<close>. A state is an iterable, modelled as the
  list of its elements; \<open>h\<close> is the hash of the tuple of a list, a parameter of every
  method.
\<close>

record 'a HashedActor =
  hashed_policy :: "(int \<times> 'a option) \<rightharpoonup> real"
  hashed_eligibilities :: "(int \<times> 'a option) \<rightharpoonup> real"
  hashed_state_actions :: "int \<rightharpoonup> 'a list"
  learning_rate :: real
  own_epsilon :: real

text \<open>
  \<^verbatim>\<open>def __init__(self, learning_rate, epsilon)\<close>: a call binds the positional arguments
  to the two parameters, which have no default, and raises \<open>TypeError\<close> when their number
  is not two.
\<close>

definition HashedActor_init :: "real list \<Rightarrow> error + 'a HashedActor" where
  "HashedActor_init args =
     (case args of
        [lr, eps] \<Rightarrow>
          Inr \<lparr>hashed_policy = Map.empty, hashed_eligibilities = Map.empty,
               hashed_state_actions = Map.empty, learning_rate = lr, own_epsilon = eps\<rparr>
      | _ \<Rightarrow> Inl TypeError)"

fun hashed_add_state_loop :: "int \<Rightarrow> 'a list \<Rightarrow> 'a HashedActor \<Rightarrow> 'a HashedActor" where
  "hashed_add_state_loop state_id [] a = a"
| "hashed_add_state_loop state_id (action # actions) a =
     (let a1 = (if hashed_policy a (state_id, Some action) = None
                then a\<lparr>hashed_policy := (hashed_policy a)((state_id, Some action) \<mapsto> 0)\<rparr>
                else a);
          a2 = (if hashed_eligibilities a1 (state_id, Some action) = None
                then a1\<lparr>hashed_eligibilities :=
                          (hashed_eligibilities a1)((state_id, Some action) \<mapsto> 0)\<rparr>
                else a1)
      in hashed_add_state_loop state_id actions a2)"

definition hashed_add_state ::
  "('e list \<Rightarrow> int) \<Rightarrow> 'e list \<Rightarrow> 'a list \<Rightarrow> 'a HashedActor \<Rightarrow> 'a HashedActor" where
  "hashed_add_state h state actions a =
     (let state_id = h state in
      hashed_add_state_loop state_id actions
        (a\<lparr>hashed_state_actions := (hashed_state_actions a)(state_id \<mapsto> actions)\<rparr>))"

definition hashed_reset_eligibilities :: "'a HashedActor \<Rightarrow> 'a HashedActor" where
  "hashed_reset_eligibilities a =
     a\<lparr>hashed_eligibilities := (\<lambda>k. map_option (\<lambda>_. 0) (hashed_eligibilities a k))\<rparr>"

definition increase_eligibility ::
  "('e list \<Rightarrow> int) \<Rightarrow> 'a HashedActor \<Rightarrow> 'e list \<Rightarrow> 'a option \<Rightarrow> 'a HashedActor" where
  "increase_eligibility h a state action =
     a\<lparr>hashed_eligibilities := (hashed_eligibilities a)((h state, action) \<mapsto> 1)\<rparr>"

definition hashed_propose_action ::
  "('e list \<Rightarrow> int) \<Rightarrow> 'a HashedActor \<Rightarrow> 'e list \<Rightarrow> rng \<Rightarrow> error + ('a option \<times> rng)" where
  "hashed_propose_action h a state g =
     (let state_id = h state in
      case hashed_state_actions a state_id of
        None \<Rightarrow> Inl KeyError
      | Some actions \<Rightarrow>
          (case choice_explore (own_epsilon a) g of
             Inl e \<Rightarrow> Inl e
           | Inr (c, g1) \<Rightarrow>
               if c = 1 then
                 (case choice_uniform actions g1 of
                    Inl e \<Rightarrow> Inl e
                  | Inr (x, g2) \<Rightarrow> Inr (Some x, g2))
               else
                 (case greedy_scan (hashed_policy a) state_id (length actions) actions
                         (None, None) of
                    Inl e \<Rightarrow> Inl e
                  | Inr best_action \<Rightarrow> Inr (best_action, g1))))"

definition hashed_update_policy ::
  "('e list \<Rightarrow> int) \<Rightarrow> 'a HashedActor \<Rightarrow> 'e list \<Rightarrow> 'a option \<Rightarrow> real
     \<Rightarrow> error + 'a HashedActor" where
  "hashed_update_policy h a state action td_error =
     (let state_id = h state in
      case hashed_policy a (state_id, action) of
        None \<Rightarrow> Inl KeyError
      | Some p \<Rightarrow>
          (case hashed_eligibilities a (state_id, action) of
             None \<Rightarrow> Inl KeyError
           | Some e \<Rightarrow>
               Inr (a\<lparr>hashed_policy :=
                        (hashed_policy a)((state_id, action) \<mapsto> p + learning_rate a * td_error * e)\<rparr>)))"

definition hashed_update_eligibilities ::
  "('e list \<Rightarrow> int) \<Rightarrow> 'a HashedActor \<Rightarrow> 'e list \<Rightarrow> 'a option \<Rightarrow> real \<Rightarrow> real
     \<Rightarrow> error + 'a HashedActor" where
  "hashed_update_eligibilities h a state action discount decay =
     (let state_id = h state in
      case hashed_eligibilities a (state_id, action) of
        None \<Rightarrow> Inl KeyError
      | Some e \<Rightarrow>
          Inr (a\<lparr>hashed_eligibilities :=
                   (hashed_eligibilities a)((state_id, action) \<mapsto> e * (discount * decay))\<rparr>))"

subsection \<open>The orchestrator of \<^verbatim>\<open>core.py\<close>\<close>

text \<open>
  \<open>fit\<close> of \<^verbatim>\<open>core.py\<close> has the text of \<open>fit\<close> of \<^verbatim>\<open>acm.py\<close>, in a module that imports
  \<open>TableBasedActor\<close> from \<^verbatim>\<open>actor.py\<close> and defines or imports no critic class.
  Line 29 calls the actor's constructor with no argument. Lines 30 to 33 name
  \<open>TableBasedCritic\<close> or \<open>NNBasedCritic\<close>, neither of which is bound in the module, so
  either branch raises \<open>NameError\<close>. No path reaches line 35, and the model ends there.
\<close>

record ('d, 'a) core_fit_state =
  core_self :: ACM
  core_actor :: "'a HashedActor"
  core_domain :: 'd
  core_rng :: rng

definition core_fit ::
  "ACM \<Rightarrow> ('d, 's, 'a) Domain \<Rightarrow> 'd \<Rightarrow> rng \<Rightarrow> error + ('d, 'a) core_fit_state" where
  "core_fit acm domain d g =
     bind_err (HashedActor_init []) (\<lambda>actor0 :: 'a HashedActor.
     if critic_type acm = ''table'' then Inl NameError else Inl NameError)"

subsection \<open>The credit assignment in the words of the specification\<close>

text \<open>
  For one entry of the episode: the critic's value update at the state, the critic's trace
  decay at the state, the actor's preference update at the pair, the actor's trace decay
  at the pair. For the whole history: the entries from the oldest to the newest, each
  starting from the tables the one before it left, stopping at the first error.
\<close>

definition credit_entry ::
  "ACM \<Rightarrow> real \<Rightarrow> ('s, 'a) TableBasedActor \<times> 's Critic \<Rightarrow> 's \<times> 'a option
     \<Rightarrow> error + (('s, 'a) TableBasedActor \<times> 's Critic)" where
  "credit_entry acm td tables entry =
     (case tables of (ac, cr) \<Rightarrow> case entry of (s, a) \<Rightarrow>
        bind_err (table_of cr) (\<lambda>t.
        bind_err (update_value_function t s (critic_lr acm) td) (\<lambda>t1.
        bind_err (critic_update_eligibilities t1 s (discount_rate acm) (decay_factor acm)) (\<lambda>t2.
        bind_err (update_policy ac s a (actor_lr acm) td) (\<lambda>a1.
        bind_err (actor_update_eligibilities a1 s a (discount_rate acm) (decay_factor acm)) (\<lambda>a2.
        Inr (a2, Table t2)))))))"

definition credit_assignment ::
  "ACM \<Rightarrow> real \<Rightarrow> ('s \<times> 'a option) list \<Rightarrow> ('s, 'a) TableBasedActor \<times> 's Critic
     \<Rightarrow> error + (('s, 'a) TableBasedActor \<times> 's Critic)" where
  "credit_assignment acm td entries tables =
     foldl (\<lambda>m entry. bind_err m (\<lambda>tb. credit_entry acm td tb entry)) (Inr tables) entries"

subsection \<open>Repeated calls\<close>


subsection \<open>Objects built through the interface\<close>




subsection \<open>Tables with the same keys\<close>







section \<open>Concrete scenarios\<close>

text \<open>
  Small closed inputs on which the theorems below are instantiated: a random source that
  always yields the raw value 0, a critic and an actor with a few entries, and the
  two-state domain of the specification (from state 0 both actions lead to the terminal
  state 1; action 0 pays 1, action 1 pays 0).
\<close>

definition rng0 :: rng where
  "rng0 = \<lparr>rng_raw = (\<lambda>n. 0), rng_pos = 0\<rparr>"

definition critic0 :: "nat TableBasedCritic" where
  "critic0 = \<lparr>state_values = [0 \<mapsto> 1 / 4, 1 \<mapsto> 1 / 2],
              critic_eligibilities = [0 \<mapsto> 1, 1 \<mapsto> 0]\<rparr>"


definition actor0 :: "(nat, nat) TableBasedActor" where
  "actor0 = \<lparr>policy = [(0, Some 0) \<mapsto> 1, (0, Some 1) \<mapsto> 3, (0, Some 2) \<mapsto> 3],
             actor_eligibilities = [(0, Some 0) \<mapsto> 1, (0, Some 1) \<mapsto> -1, (0, Some 2) \<mapsto> 0],
             state_actions = [0 \<mapsto> [0, 1, 2], 1 \<mapsto> []]\<rparr>"

definition hashed0 :: "nat HashedActor" where
  "hashed0 = \<lparr>hashed_policy = Map.empty, hashed_eligibilities = Map.empty,
              hashed_state_actions = [7 \<mapsto> []], learning_rate = 1 / 2, own_epsilon = 0\<rparr>"

definition env0 :: "(nat, nat, nat) Domain" where
  "env0 = \<lparr>produce_initial_state = (\<lambda>d. Inr ((0, [0, 1]), 0)),
           generate_child_state = (\<lambda>a d. Inr ((1, [], if a = Some 0 then 1 else 0), 1)),
           is_current_state_terminal = (\<lambda>d. d = 1),
           domain_visualise = (\<lambda>d. d)\<rparr>"

text \<open>A domain with one state and one action that leads back to the state and pays 1.\<close>

definition env1 :: "(nat, nat, nat) Domain" where
  "env1 = \<lparr>produce_initial_state = (\<lambda>d. Inr ((0, [0]), 0)),
           generate_child_state = (\<lambda>a d. Inr ((0, [0], 1), d)),
           is_current_state_terminal = (\<lambda>d. False),
           domain_visualise = (\<lambda>d. d)\<rparr>"


definition acm0 :: ACM where
  "acm0 = \<lparr>max_episodes = 2, steps = 1, critic_type = ''table'', critic_nn_dims = [],
           actor_lr = 1 / 2, critic_lr = 1 / 2, decay_factor = 1 / 2, discount_rate = 1 / 2,
           epsilon = 1 / 2, epsilon_decay = 1 / 2, visualise = False, verbose = False\<rparr>"



section \<open>The random source\<close>

lemma random_sample_unit: "0 \<le> fst (random_sample g) \<and> fst (random_sample g) < 1"
proof -
  have "rng_raw g (rng_pos g) mod 2 ^ 53 < (2::nat) ^ 53" by simp
  then have "real (rng_raw g (rng_pos g) mod 2 ^ 53) < real ((2::nat) ^ 53)"
    by (simp only: of_nat_less_iff)
  then show ?thesis by (simp add: random_sample_def)
qed

lemma snd_random_sample: "snd (random_sample g) = rng_next g"
  by (simp add: random_sample_def)

lemma choice_explore_zero: "choice_explore 0 g = Inr (0, rng_next g)"
  using random_sample_unit [of g] snd_random_sample [of g]
  by (cases "random_sample g") (simp add: choice_explore_def)

section \<open>The critic's TD error\<close>

text \<open>
  C1. For registered states with values \<open>v1\<close> (current) and \<open>v2\<close> (successor), every reward
  \<open>r\<close> and discount rate \<open>\<gamma>\<close>, \<open>compute_td_error\<close> returns exactly \<open>r + \<gamma> * v2 - v1\<close>
  and leaves the critic (value table and trace table) as it was.
\<close>

theorem compute_td_error_formula:
  assumes "state_values c s1 = Some v1" and "state_values c s2 = Some v2"
  shows "compute_td_error c s1 s2 r \<gamma> = Inr (r + \<gamma> * v2 - v1, c)"
  using assms by (simp add: compute_td_error_def)

theorem compute_td_error_formula_witness:
  "state_values critic0 0 = Some (1 / 4) \<and> state_values critic0 1 = Some (1 / 2) \<and>
   compute_td_error critic0 0 1 1 (1 / 2) = Inr (1, critic0)"
proof -
  have h1: "state_values critic0 0 = Some (1 / 4)" by (simp add: critic0_def)
  have h2: "state_values critic0 1 = Some (1 / 2)" by (simp add: critic0_def)
  show ?thesis
    using h1 h2 compute_td_error_formula [OF h1 h2, of 1 "1 / 2"] by simp
qed

section \<open>Greedy action selection\<close>





text \<open>
  C10. For a state registered with an empty action list, \<open>propose_action\<close> with
  \<open>epsilon = 0\<close> returns \<open>None\<close> and raises nothing, in the actor of \<^verbatim>\<open>acm.py\<close> and, when
  the exploration rate stored in the object is 0, in the actor of \<^verbatim>\<open>actor.py\<close>.
\<close>

theorem propose_action_empty:
  "(state_actions a s = Some [] \<longrightarrow> propose_action a s 0 g = Inr (None, rng_next g)) \<and>
   (hashed_state_actions b (h t) = Some [] \<and> own_epsilon b = 0 \<longrightarrow>
      hashed_propose_action h b t g = Inr (None, rng_next g))"
  by (simp add: propose_action_def hashed_propose_action_def choice_explore_zero)

theorem propose_action_empty_witness:
  "propose_action actor0 1 0 rng0 = Inr (None, rng_next rng0) \<and>
   hashed_propose_action (\<lambda>t. 7) hashed0 [1 :: nat] rng0 = Inr (None, rng_next rng0)"
proof -
  have h1: "state_actions actor0 1 = Some []" by (simp add: actor0_def)
  have h2: "hashed_state_actions hashed0 ((\<lambda>t :: nat list. 7) [1]) = Some [] \<and> own_epsilon hashed0 = 0"
    by (simp add: hashed0_def)
  show ?thesis
    using h1 h2 propose_action_empty [where a = actor0 and s = 1 and b = hashed0 and h = "\<lambda>t. 7"
      and t = "[1 :: nat]" and g = rng0]
    by blast
qed

section \<open>Registration\<close>

lemma add_state_loop_policy:
  "policy (add_state_loop s acts a) k =
     (case policy a k of
        Some v \<Rightarrow> Some v
      | None \<Rightarrow> if k \<in> (\<lambda>x. (s, Some x)) ` set acts then Some 0 else None)"
  by (induction acts arbitrary: a) (auto simp: Let_def split: option.splits)

lemma add_state_loop_eligibilities:
  "actor_eligibilities (add_state_loop s acts a) k =
     (case actor_eligibilities a k of
        Some v \<Rightarrow> Some v
      | None \<Rightarrow> if k \<in> (\<lambda>x. (s, Some x)) ` set acts then Some 0 else None)"
  by (induction acts arbitrary: a) (auto simp: Let_def split: option.splits)

lemma add_state_loop_state_actions:
  "state_actions (add_state_loop s acts a) = state_actions a"
  by (induction acts arbitrary: a) (auto simp: Let_def)

lemma actor_add_state_policy:
  "policy (actor_add_state s acts a) k =
     (case policy a k of
        Some v \<Rightarrow> Some v
      | None \<Rightarrow> if k \<in> (\<lambda>x. (s, Some x)) ` set acts then Some 0 else None)"
  by (simp add: actor_add_state_def add_state_loop_policy)

lemma actor_add_state_eligibilities:
  "actor_eligibilities (actor_add_state s acts a) k =
     (case actor_eligibilities a k of
        Some v \<Rightarrow> Some v
      | None \<Rightarrow> if k \<in> (\<lambda>x. (s, Some x)) ` set acts then Some 0 else None)"
  by (simp add: actor_add_state_def add_state_loop_eligibilities)

lemma actor_add_state_state_actions:
  "state_actions (actor_add_state s acts a) = (state_actions a)(s \<mapsto> acts)"
  by (simp add: actor_add_state_def add_state_loop_state_actions)

lemma actor_add_state_twice:
  "actor_add_state s acts (actor_add_state s acts a) = actor_add_state s acts a"
proof (rule TableBasedActor.equality)
  show "policy (actor_add_state s acts (actor_add_state s acts a)) = policy (actor_add_state s acts a)"
    by (rule ext) (auto simp: actor_add_state_policy split: option.splits)
  show "actor_eligibilities (actor_add_state s acts (actor_add_state s acts a))
        = actor_eligibilities (actor_add_state s acts a)"
    by (rule ext) (auto simp: actor_add_state_eligibilities split: option.splits)
  show "state_actions (actor_add_state s acts (actor_add_state s acts a))
        = state_actions (actor_add_state s acts a)"
    by (simp add: actor_add_state_state_actions)
qed simp

lemma critic_add_state_values:
  "state_values (fst (critic_add_state s c g)) k =
     (case state_values c k of
        Some v \<Rightarrow> Some v
      | None \<Rightarrow> if k = s then Some (fst (random_sample g)) else None)"
  by (auto simp: critic_add_state_def Let_def split: prod.splits option.splits)

lemma critic_add_state_eligibilities:
  "critic_eligibilities (fst (critic_add_state s c g)) k =
     (case critic_eligibilities c k of
        Some v \<Rightarrow> Some v
      | None \<Rightarrow> if k = s then Some 0 else None)"
  by (auto simp: critic_add_state_def Let_def split: prod.splits option.splits)

lemma critic_add_state_registered:
  "state_values c s \<noteq> None \<Longrightarrow> critic_eligibilities c s \<noteq> None \<Longrightarrow>
   critic_add_state s c g = (c, g)"
  by (auto simp: critic_add_state_def Let_def)

lemma critic_add_state_twice:
  "critic_add_state s (fst (critic_add_state s c g)) g' = (fst (critic_add_state s c g), g')"
  by (rule critic_add_state_registered)
     (auto simp: critic_add_state_values critic_add_state_eligibilities split: option.splits)

text \<open>
  C4. \<open>add_state\<close> never changes an entry that exists: in the actor, a preference or a
  trace that was present keeps its value and a missing one is created with 0 exactly for
  the pairs of the state with the listed actions; a second call with the same arguments
  changes nothing. In the critic, a value that was present is kept and a missing one is
  created for the added state only, with a draw of the half-open unit interval; a missing
  trace is created with 0; a second call changes nothing and draws nothing.
\<close>

theorem add_state_idempotent:
  "policy (actor_add_state s acts a) k =
     (case policy a k of
        Some v \<Rightarrow> Some v
      | None \<Rightarrow> if k \<in> (\<lambda>x. (s, Some x)) ` set acts then Some 0 else None) \<and>
   actor_eligibilities (actor_add_state s acts a) k =
     (case actor_eligibilities a k of
        Some v \<Rightarrow> Some v
      | None \<Rightarrow> if k \<in> (\<lambda>x. (s, Some x)) ` set acts then Some 0 else None) \<and>
   actor_add_state s acts (actor_add_state s acts a) = actor_add_state s acts a \<and>
   state_values (fst (critic_add_state s c g)) s' =
     (case state_values c s' of
        Some v \<Rightarrow> Some v
      | None \<Rightarrow> if s' = s then Some (fst (random_sample g)) else None) \<and>
   0 \<le> fst (random_sample g) \<and> fst (random_sample g) < 1 \<and>
   critic_eligibilities (fst (critic_add_state s c g)) s' =
     (case critic_eligibilities c s' of
        Some v \<Rightarrow> Some v
      | None \<Rightarrow> if s' = s then Some 0 else None) \<and>
   critic_add_state s (fst (critic_add_state s c g)) g' = (fst (critic_add_state s c g), g')"
  using random_sample_unit [of g]
  by (simp only: actor_add_state_policy actor_add_state_eligibilities actor_add_state_twice
        critic_add_state_values critic_add_state_eligibilities critic_add_state_twice
        simp_thms)

section \<open>Eligibility decay\<close>






section \<open>The exploration rate\<close>




text \<open>Evaluating the model on the concrete scenario.\<close>

lemmas eval_defs = step_loop.simps run_episode_def episode_init_def bind_err_def table_of_def
   TableBasedActor_init_def TableBasedCritic_init_def actor_add_state_def critic_add_state_def
   actor_reset_eligibilities_def critic_reset_eligibilities_def propose_action_def
   choice_explore_def random_sample_def rng_next_def fit_step_def fit_step_prepare_def
   compute_td_error_def update_value_function_def critic_update_eligibilities_def
   update_policy_def actor_update_eligibilities_def Let_def

lemma upt_two: "[0..<2] = [0, Suc 0]"
  by (simp add: upt_conv_Cons numeral_2_eq_2)

lemma fit_acm0_returns: "\<exists>fs. fit acm0 env0 0 rng0 = Inr fs"
  by (simp add: fit_def fit_init_def upt_two eval_defs acm0_def env0_def rng0_def)



section \<open>The two orchestrators\<close>

text \<open>
  C9. \<open>fit\<close> of \<^verbatim>\<open>core.py\<close> raises \<open>TypeError\<close> on every input, at the construction of
  its actor on line 29: the constructor of \<^verbatim>\<open>actor.py\<close> requires a learning rate and an
  exploration rate and is called with neither. On the two-state domain \<open>fit\<close> of
  \<^verbatim>\<open>acm.py\<close> returns, so the two runs do not produce the same tables.
\<close>

theorem core_fit_raises:
  "core_fit acm0 env0 0 rng0 = Inl TypeError \<and> (\<exists>fs. fit acm0 env0 0 rng0 = Inr fs)"
proof -
  have "core_fit acm0 env0 0 rng0 = Inl TypeError"
    by (simp add: core_fit_def HashedActor_init_def bind_err_def)
  with fit_acm0_returns show ?thesis by blast
qed

section \<open>The order of the credit assignment\<close>

lemma foldl_bind_err_Inl:
  "foldl (\<lambda>m entry. bind_err m (f entry)) (Inl e) entries = Inl e"
  by (induction entries) (simp_all add: bind_err_def)

lemma sweep_credit_assignment:
  "sweep acm td entries tables = credit_assignment acm td entries tables"
proof (induction entries arbitrary: tables)
  case Nil
  then show ?case by (cases tables) (simp add: credit_assignment_def)
next
  case (Cons entry entries)
  obtain ac cr where tables: "tables = (ac, cr)" by (cases tables)
  obtain s a where entry: "entry = (s, a)" by (cases entry)
  show ?case
  proof (cases "credit_entry acm td (ac, cr) (s, a)")
    case (Inl e)
    then have "sweep acm td ((s, a) # entries) (ac, cr) = Inl e"
      by (auto simp: credit_entry_def bind_err_def split: sum.splits)
    moreover have "credit_assignment acm td ((s, a) # entries) (ac, cr) = Inl e"
      using Inl foldl_bind_err_Inl [of "\<lambda>entry tb. credit_entry acm td tb entry" e entries]
      by (simp add: credit_assignment_def bind_err_def)
    ultimately show ?thesis using tables entry by simp
  next
    case (Inr tb)
    then have "sweep acm td ((s, a) # entries) (ac, cr) = sweep acm td entries tb"
      by (auto simp: credit_entry_def bind_err_def split: sum.splits)
    moreover have "credit_assignment acm td ((s, a) # entries) (ac, cr)
                   = credit_assignment acm td entries tb"
      using Inr by (simp add: credit_assignment_def bind_err_def)
    ultimately show ?thesis using tables entry Cons.IH by simp
  qed
qed

lemma fit_step_prepare_marks:
  assumes "fit_step_prepare acm domain st = Inr (st1, ss, sa, td)"
  shows "episode st1 = episode st @ [(current_state st, current_action st)] \<and>
         actor_eligibilities (actor st1) (current_state st, current_action st) = Some 1 \<and>
         (\<exists>t r acts d v1 v2.
            critic st1 = Table t \<and>
            critic_eligibilities t (current_state st) = Some 1 \<and>
            generate_child_state domain (current_action st) (domain_state st)
              = Inr ((ss, acts, r), d) \<and>
            state_values t (current_state st) = Some v1 \<and>
            state_values t ss = Some v2 \<and>
            td = r + discount_rate acm * v2 - v1)"
  using assms
  by (auto simp: fit_step_prepare_def bind_err_def Let_def compute_td_error_def
           split: sum.splits prod.splits option.splits)

text \<open>
  C2. A step is its preparation followed by the credit assignment of the specification:
  the sweep runs over the whole history with the current pair appended, oldest entry
  first, each entry doing the critic's value update, the critic's trace decay, the
  actor's preference update and the actor's trace decay on the tables as the earlier
  entries left them. When the preparation succeeds, both traces of the current pair are
  1 at the start of the sweep and the TD error is the reward plus the discounted value of
  the successor minus the value of the current state, read before the sweep.
\<close>

theorem sweep_order:
  "fit_step acm domain st =
     bind_err (fit_step_prepare acm domain st) (\<lambda>(st1, successor_state, successor_action, td).
     bind_err (credit_assignment acm td
                 (episode st @ [(current_state st, current_action st)]) (actor st1, critic st1))
       (\<lambda>(actor3, critic3).
     Inr (st1\<lparr>actor := actor3, critic := critic3,
              current_state := successor_state, current_action := successor_action\<rparr>))) \<and>
   (fit_step_prepare acm domain st = Inr (st1, ss, sa, td) \<longrightarrow>
      episode st1 = episode st @ [(current_state st, current_action st)] \<and>
      actor_eligibilities (actor st1) (current_state st, current_action st) = Some 1 \<and>
      (\<exists>t r acts d v1 v2.
         critic st1 = Table t \<and>
         critic_eligibilities t (current_state st) = Some 1 \<and>
         generate_child_state domain (current_action st) (domain_state st)
           = Inr ((ss, acts, r), d) \<and>
         state_values t (current_state st) = Some v1 \<and>
         state_values t ss = Some v2 \<and>
         td = r + discount_rate acm * v2 - v1))"
proof
  show "fit_step acm domain st =
     bind_err (fit_step_prepare acm domain st) (\<lambda>(st1, successor_state, successor_action, td).
     bind_err (credit_assignment acm td
                 (episode st @ [(current_state st, current_action st)]) (actor st1, critic st1))
       (\<lambda>(actor3, critic3).
     Inr (st1\<lparr>actor := actor3, critic := critic3,
              current_state := successor_state, current_action := successor_action\<rparr>)))"
  proof (cases "fit_step_prepare acm domain st")
    case (Inl e)
    then show ?thesis by (simp add: fit_step_def bind_err_def)
  next
    case (Inr r)
    obtain st1 ss sa td where r: "r = (st1, ss, sa, td)" by (cases r)
    from fit_step_prepare_marks [of acm domain st st1 ss sa td] Inr r
    have "episode st1 = episode st @ [(current_state st, current_action st)]" by simp
    with Inr r show ?thesis
      by (simp add: fit_step_def bind_err_def sweep_credit_assignment)
  qed
next
  show "fit_step_prepare acm domain st = Inr (st1, ss, sa, td) \<longrightarrow>
      episode st1 = episode st @ [(current_state st, current_action st)] \<and>
      actor_eligibilities (actor st1) (current_state st, current_action st) = Some 1 \<and>
      (\<exists>t r acts d v1 v2.
         critic st1 = Table t \<and>
         critic_eligibilities t (current_state st) = Some 1 \<and>
         generate_child_state domain (current_action st) (domain_state st)
           = Inr ((ss, acts, r), d) \<and>
         state_values t (current_state st) = Some v1 \<and>
         state_values t ss = Some v2 \<and>
         td = r + discount_rate acm * v2 - v1)"
    by (rule impI) (rule fit_step_prepare_marks)
qed

lemmas eval_no_step = episode_init_def bind_err_def table_of_def
   TableBasedActor_init_def TableBasedCritic_init_def actor_add_state_def critic_add_state_def
   actor_reset_eligibilities_def critic_reset_eligibilities_def propose_action_def
   choice_explore_def random_sample_def rng_next_def fit_step_prepare_def
   compute_td_error_def update_value_function_def critic_update_eligibilities_def
   update_policy_def actor_update_eligibilities_def Let_def

theorem sweep_order_witness:
  "\<exists>st0 st1 st2 t.
     episode_init env1 (fit_init acm0 0 rng0) = Inr st0 \<and>
     fit_step acm0 env1 st0 = Inr st1 \<and>
     fit_step acm0 env1 st1 = Inr st2 \<and>
     episode st2 = [(0, Some 0), (0, Some 0)] \<and>
     critic st2 = Table t \<and>
     state_values t 0 = Some (31 / 32) \<and>
     policy (actor st2) (0, Some 0) = Some (31 / 32)"
proof -
  note step_eq = sweep_order [THEN conjunct1]
  show ?thesis
    by (simp add: step_eq eval_no_step credit_assignment_def credit_entry_def fit_init_def
          acm0_def env1_def rng0_def)
qed

section \<open>Key sets and errors of the methods\<close>

subsection \<open>Key sets of the actor\<close>







lemma update_policy_error:
  "update_policy a s x lr td = Inl e \<Longrightarrow>
   e = KeyError \<and> ((s, x) \<notin> dom (policy a) \<or> (s, x) \<notin> dom (actor_eligibilities a))"
  by (auto simp: update_policy_def split: option.splits)

lemma actor_update_eligibilities_error:
  "actor_update_eligibilities a s x d l = Inl e \<Longrightarrow>
   e = KeyError \<and> (s, x) \<notin> dom (actor_eligibilities a)"
  by (auto simp: actor_update_eligibilities_def split: option.splits)

subsection \<open>Key sets of the critic\<close>





lemma dom_values_reset:
  "dom (state_values (critic_reset_eligibilities t)) = dom (state_values t)"
  by (simp add: critic_reset_eligibilities_def)



lemma update_value_function_error:
  "update_value_function t s lr td = Inl e \<Longrightarrow>
   e = KeyError \<and> (s \<notin> dom (state_values t) \<or> s \<notin> dom (critic_eligibilities t))"
  by (auto simp: update_value_function_def split: option.splits)

lemma critic_update_eligibilities_error:
  "critic_update_eligibilities t s d l = Inl e \<Longrightarrow>
   e = KeyError \<and> s \<notin> dom (critic_eligibilities t)"
  by (auto simp: critic_update_eligibilities_def split: option.splits)


subsection \<open>What the actor proposes\<close>

lemma choice_explore_error: "choice_explore eps g = Inl e \<Longrightarrow> e = ValueError"
  by (auto simp: choice_explore_def split: if_splits prod.splits)

lemma choice_explore_ok:
  "0 \<le> eps \<Longrightarrow> eps \<le> 1 \<Longrightarrow> \<exists>c. choice_explore eps g = Inr (c, rng_next g)"
  by (auto simp: choice_explore_def random_sample_def)

















section \<open>The key sets during training\<close>



















end
